theory Spec2Isabelle
  imports Complex_Main
begin

section \<open>JavaScript values used by table-script.tsx\<close>

text \<open>
  A field of the JSON source that the script reads as a string is absent
  (\<open>Undefined\<close>), \<open>null\<close> (\<open>Null\<close>) or a string (\<open>Val\<close>).  A string is a list of
  code units; only code units below 256 are represented.
\<close>

datatype 'a nullable = Null | Undefined | Val 'a

text \<open>
  A JavaScript Number is an IEEE 754 binary64 value.  \<open>Finite neg m e\<close> is the
  value \<open>(-1)^neg * m * 2^e\<close>; the arithmetic below keeps \<open>m\<close> odd, and zero is
  \<open>Finite neg 0 0\<close> (so both signed zeros exist).  \<open>Infinity neg\<close> is the
  infinity of that sign.
\<close>

datatype number = NaN | Infinity bool | Finite bool nat int

definition isNaN :: "number \<Rightarrow> bool" where
  "isNaN x = (x = NaN)"

subsection \<open>Rounding to binary64 (round to nearest, ties to even)\<close>

fun bitLength :: "nat \<Rightarrow> nat" where
  "bitLength n = (if n = 0 then 0 else Suc (bitLength (n div 2)))"

declare bitLength.simps [simp del]

fun stripTwos :: "nat \<Rightarrow> int \<Rightarrow> nat \<times> int" where
  "stripTwos m e =
     (if m = 0 then (0, 0)
      else if even m then stripTwos (m div 2) (e + 1)
      else (m, e))"

declare stripTwos.simps [simp del]

text \<open>\<open>ilog2 p q\<close> is the binary exponent of \<open>p / q\<close>: the \<open>d\<close> with \<open>2^d \<le> p / q < 2^(d + 1)\<close>.\<close>

definition ilog2 :: "nat \<Rightarrow> nat \<Rightarrow> int" where
  "ilog2 p q =
     (let d = int (bitLength p) - int (bitLength q)
      in if (if 0 \<le> d then q * 2 ^ nat d \<le> p else q \<le> p * 2 ^ nat (- d))
         then d else d - 1)"

definition roundHalfEven :: "nat \<Rightarrow> nat \<Rightarrow> nat" where
  "roundHalfEven num den =
     (let n = num div den; r = num mod den
      in if 2 * r < den then n
         else if den < 2 * r then n + 1
         else if even n then n else n + 1)"

text \<open>
  \<open>roundRatio neg p q\<close> is the Number value for \<open>(-1)^neg * p / q\<close> (\<open>q > 0\<close>): 53
  significant bits, exponents down to the subnormal quantum \<open>2^-1074\<close>, overflow to
  infinity from \<open>2^1024\<close> on.
\<close>

definition roundRatio :: "bool \<Rightarrow> nat \<Rightarrow> nat \<Rightarrow> number" where
  "roundRatio neg p q =
     (if p = 0 then Finite neg 0 0
      else let t = max (ilog2 p q) (- 1022) - 52;
               n = (if 0 \<le> t then roundHalfEven p (q * 2 ^ nat t)
                    else roundHalfEven (p * 2 ^ nat (- t)) q)
           in if 1024 < int (bitLength n) + t then Infinity neg
              else case stripTwos n t of (m, e) \<Rightarrow> Finite neg m e)"

definition roundScaled :: "bool \<Rightarrow> nat \<Rightarrow> int \<Rightarrow> number" where
  "roundScaled neg m e =
     (if 0 \<le> e then roundRatio neg (m * 2 ^ nat e) 1
      else roundRatio neg m (2 ^ nat (- e)))"

definition ofNat :: "nat \<Rightarrow> number" where
  "ofNat n = roundRatio False n 1"

subsection \<open>The operators \<open>*\<close> and \<open>-\<close> on Numbers\<close>

fun numMul :: "number \<Rightarrow> number \<Rightarrow> number" where
  "numMul NaN _ = NaN"
| "numMul _ NaN = NaN"
| "numMul (Infinity a) (Infinity b) = Infinity (a \<noteq> b)"
| "numMul (Infinity a) (Finite b m e) = (if m = 0 then NaN else Infinity (a \<noteq> b))"
| "numMul (Finite a m e) (Infinity b) = (if m = 0 then NaN else Infinity (a \<noteq> b))"
| "numMul (Finite a m1 e1) (Finite b m2 e2) = roundScaled (a \<noteq> b) (m1 * m2) (e1 + e2)"

fun numSub :: "number \<Rightarrow> number \<Rightarrow> number" where
  "numSub NaN _ = NaN"
| "numSub _ NaN = NaN"
| "numSub (Infinity a) (Infinity b) = (if a = b then NaN else Infinity a)"
| "numSub (Infinity a) (Finite b m e) = Infinity a"
| "numSub (Finite a m e) (Infinity b) = Infinity (\<not> b)"
| "numSub (Finite a m1 e1) (Finite b m2 e2) =
     (let e = min e1 e2;
          x = (if a then - 1 else 1) * int m1 * 2 ^ nat (e1 - e);
          y = (if b then - 1 else 1) * int m2 * 2 ^ nat (e2 - e);
          d = x - y
      in if d = 0 then Finite (m1 = 0 \<and> m2 = 0 \<and> a \<and> \<not> b) 0 0
         else roundScaled (d < 0) (nat \<bar>d\<bar>) e)"

subsection \<open>Decimal digits\<close>

definition isDigit :: "char \<Rightarrow> bool" where
  "isDigit c = (c \<in> set ''0123456789'')"

definition digitVal :: "char \<Rightarrow> nat" where
  "digitVal c = of_char c - 48"

definition digitsVal :: "string \<Rightarrow> nat" where
  "digitsVal ds = foldl (\<lambda>a c. 10 * a + digitVal c) 0 ds"

definition digitChar :: "nat \<Rightarrow> char" where
  "digitChar d = ''0123456789'' ! d"

fun showNat :: "nat \<Rightarrow> string" where
  "showNat n = (if n < 10 then [digitChar n] else showNat (n div 10) @ [digitChar (n mod 10)])"

declare showNat.simps [simp del]

definition padStart :: "nat \<Rightarrow> string \<Rightarrow> string" where
  "padStart n s = replicate (n - length s) CHR ''0'' @ s"

subsection \<open>Number.prototype.toFixed and Number::toString\<close>

text \<open>
  \<open>atLeast1e21 m e\<close>: the magnitude \<open>m * 2^e\<close> is at least \<open>10^21\<close>, where toFixed
  hands over to Number::toString.
\<close>

definition atLeast1e21 :: "nat \<Rightarrow> int \<Rightarrow> bool" where
  "atLeast1e21 m e =
     (if 0 \<le> e then 10 ^ 21 \<le> m * 2 ^ nat e else 10 ^ 21 * 2 ^ nat (- e) \<le> m)"

text \<open>
  Number::toString of a Number \<open>x\<close> of integral value \<open>N \<ge> 10^21\<close> with \<open>nd\<close> decimal
  digits: the fewest digits \<open>s\<close> (\<open>k\<close> of them) such that \<open>s * 10^(n - k)\<close> has Number
  value \<open>x\<close>; among several \<open>s\<close> the one nearest to \<open>N\<close>, the even one at a tie.
  \<open>digitsCandidate\<close> tries one \<open>k\<close> with \<open>n = nd\<close>.
\<close>

definition digitsCandidate :: "nat \<Rightarrow> nat \<Rightarrow> number \<Rightarrow> nat \<Rightarrow> nat option" where
  "digitsCandidate N nd x k =
     (let u = 10 ^ (nd - k); lo = N div u; hi = lo + 1;
          okLo = (roundRatio False (lo * u) 1 = x);
          okHi = (hi < 10 ^ k \<and> roundRatio False (hi * u) 1 = x)
      in if okLo \<and> okHi then
           (if N - lo * u < hi * u - N then Some lo
            else if hi * u - N < N - lo * u then Some hi
            else if even lo then Some lo else Some hi)
         else if okLo then Some lo
         else if okHi then Some hi
         else None)"

definition shortestDigits :: "nat \<Rightarrow> nat \<Rightarrow> number \<Rightarrow> nat" where
  "shortestDigits N nd x =
     (case List.map_filter (digitsCandidate N nd x) [1..<18] of
        [] \<Rightarrow> N
      | s # _ \<Rightarrow> s)"

definition exponential :: "string \<Rightarrow> nat \<Rightarrow> string" where
  "exponential ds n =
     (if length ds = 1 then ds @ ''e+'' @ showNat (n - 1)
      else [hd ds] @ ''.'' @ tl ds @ ''e+'' @ showNat (n - 1))"

definition bigToString :: "nat \<Rightarrow> int \<Rightarrow> string" where
  "bigToString m e =
     (let N = m * 2 ^ nat e; nd = length (showNat N)
      in if roundRatio False (10 ^ nd) 1 = Finite False m e then exponential ''1'' (nd + 1)
         else exponential (showNat (shortestDigits N nd (Finite False m e))) nd)"

text \<open>
  \<open>x.toFixed(f)\<close> for \<open>0 \<le> f \<le> 100\<close> (the script passes 0 and 2).  Below \<open>10^21\<close>
  the digits are those of the integer \<open>n\<close> nearest to \<open>|x| * 10^f\<close>, the larger one
  at a tie.
\<close>

definition fixedDigits :: "nat \<Rightarrow> int \<Rightarrow> nat \<Rightarrow> nat" where
  "fixedDigits m e f =
     (if 0 \<le> e then m * 2 ^ nat e * 10 ^ f
      else (2 * m * 10 ^ f + 2 ^ nat (- e)) div (2 * 2 ^ nat (- e)))"

definition toFixed :: "number \<Rightarrow> nat \<Rightarrow> string" where
  "toFixed x f =
     (case x of
        NaN \<Rightarrow> ''NaN''
      | Infinity neg \<Rightarrow> (if neg then ''-Infinity'' else ''Infinity'')
      | Finite neg m e \<Rightarrow>
          (let s = (if neg \<and> m \<noteq> 0 then ''-'' else [])
           in if atLeast1e21 m e then s @ bigToString m e
              else let ds = showNat (fixedDigits m e f)
                   in if f = 0 then s @ ds
                      else let z = padStart (f + 1) ds; k = length z
                           in s @ take (k - f) z @ ''.'' @ drop (k - f) z))"

subsection \<open>parseFloat\<close>

text \<open>Code units below 256 that are WhiteSpace or LineTerminator: TAB, LF, VT, FF, CR, SP, NBSP.\<close>

definition isWhiteSpace :: "char \<Rightarrow> bool" where
  "isWhiteSpace c = (c \<in> set [CHR 0x09, CHR 0x0A, CHR 0x0B, CHR 0x0C, CHR 0x0D, CHR 0x20, CHR 0xA0])"

definition trimStart :: "string \<Rightarrow> string" where
  "trimStart s = dropWhile isWhiteSpace s"

definition trim :: "string \<Rightarrow> string" where
  "trim s = rev (dropWhile isWhiteSpace (rev (dropWhile isWhiteSpace s)))"

definition signedInteger :: "bool \<Rightarrow> string \<Rightarrow> int" where
  "signedInteger neg r =
     (let ds = takeWhile isDigit r
      in if ds = [] then 0
         else if neg then - int (digitsVal ds) else int (digitsVal ds))"

text \<open>
  The value of the ExponentPart at the head of \<open>r\<close>; 0 when \<open>r\<close> does not start with
  one (the literal then ends before \<open>r\<close>).
\<close>

definition exponentPart :: "string \<Rightarrow> int" where
  "exponentPart r =
     (case r of
        [] \<Rightarrow> 0
      | c # r1 \<Rightarrow>
          if c = CHR ''e'' \<or> c = CHR ''E'' then
            (case r1 of
               [] \<Rightarrow> 0
             | sg # r2 \<Rightarrow>
                 if sg = CHR ''+'' then signedInteger False r2
                 else if sg = CHR ''-'' then signedInteger True r2
                 else signedInteger False r1)
          else 0)"

text \<open>
  The longest prefix of \<open>s\<close> that is a StrUnsignedDecimalLiteral other than
  \<open>Infinity\<close>, as \<open>(d, e)\<close> of mathematical value \<open>d * 10^e\<close>; \<open>None\<close> when no prefix is one.
\<close>

definition strUnsignedDecimalLiteral :: "string \<Rightarrow> (nat \<times> int) option" where
  "strUnsignedDecimalLiteral s =
     (let ip = takeWhile isDigit s; r1 = dropWhile isDigit s
      in if r1 \<noteq> [] \<and> hd r1 = CHR ''.'' then
           (let fp = takeWhile isDigit (tl r1); r2 = dropWhile isDigit (tl r1)
            in if ip = [] \<and> fp = [] then None
               else Some (digitsVal (ip @ fp), exponentPart r2 - int (length fp)))
         else if ip = [] then None
         else Some (digitsVal ip, exponentPart r1))"

definition parseFloat :: "string \<Rightarrow> number" where
  "parseFloat inputString =
     (let t = trimStart inputString;
          neg = (t \<noteq> [] \<and> hd t = CHR ''-'');
          u = (if t \<noteq> [] \<and> (hd t = CHR ''+'' \<or> hd t = CHR ''-'') then tl t else t)
      in if take 8 u = ''Infinity'' then Infinity neg
         else case strUnsignedDecimalLiteral u of
                None \<Rightarrow> NaN
              | Some (d, e) \<Rightarrow>
                  if 0 \<le> e then roundRatio neg (d * 10 ^ nat e) 1
                  else roundRatio neg d (10 ^ nat (- e)))"

section \<open>dayjs: the label of the month before a reference month\<close>

text \<open>
  \<open>dayjs(month).subtract(1, "month").format("YYYY-MM")\<close>, for a \<open>month\<close> of four
  digits, a hyphen and two digits.  dayjs splits such a string into year \<open>y\<close> and
  month \<open>mo\<close> and builds the local date \<open>new Date(y, mo - 1, 1)\<close>; the Date
  constructor reads a year from 0 to 99 as 1900 + \<open>y\<close> and carries a month index
  outside 0..11 into the year.  Subtracting a month moves to the first day of the
  month before; the format pads the year to four digits and the month to two.  For a
  string of any other shape the result depends on the rest of dayjs's pattern and on
  the host's Date parser: it is the parameter \<open>other\<close>.
\<close>

definition isMonthLabel :: "string \<Rightarrow> bool" where
  "isMonthLabel s =
     (length s = 7 \<and> isDigit (s ! 0) \<and> isDigit (s ! 1) \<and> isDigit (s ! 2) \<and> isDigit (s ! 3)
      \<and> s ! 4 = CHR ''-'' \<and> isDigit (s ! 5) \<and> isDigit (s ! 6))"

definition formatYearMonth :: "int \<Rightarrow> string" where
  "formatYearMonth months =
     padStart 4 (showNat (nat (months div 12))) @ ''-'' @ padStart 2 (showNat (nat (months mod 12 + 1)))"

definition dayjsPreviousMonth :: "(string \<Rightarrow> string) \<Rightarrow> string \<Rightarrow> string" where
  "dayjsPreviousMonth other s =
     (if isMonthLabel s then
        (let y = digitsVal (take 4 s); mo = digitsVal (drop 5 s);
             yr = (if y \<le> 99 then 1900 + y else y);
             referenceMonth = 12 * int yr + (int mo - 1);
             previousMonth = referenceMonth - 1
         in formatYearMonth previousMonth)
      else other s)"

section \<open>The data model of ./types\<close>

text \<open>
  Modelled from the spec: the type declarations of \<open>./types\<close> (SourceDataType,
  Employee, ExternalEmployee, MonthlyFinancialEntry, TableDataType) are not in the
  source tree.  The records below hold the fields that table-script.tsx reads, typed
  as section 3 of the specification describes them.  A sub-object is an \<open>option\<close>:
  \<open>None\<close> stands for an absent or \<open>null\<close> object, which optional chaining and \<open>||\<close>
  treat alike.  Employee and ExternalEmployee are read through the same fields.
\<close>

record MonthlyFinancialEntry =
  month :: "string nullable"
  costs :: "string nullable"

record CostsByMonth =
  potentialEarningsByMonth :: "MonthlyFinancialEntry list option"
  costsByMonth :: "MonthlyFinancialEntry list option"

record StatusAggregation =
  status :: "string nullable"
  monthlySalary :: "string nullable"

record UtilisationEntry =
  utilisationRate :: "string nullable"

record WorkforceUtilisation =
  utilisationRateLastTwelveMonths :: "string nullable"
  utilisationRateYearToDate :: "string nullable"
  lastThreeMonthsIndividually :: "UtilisationEntry list option"

record Employee =
  name :: "string nullable"
  status :: "string nullable"
  statusAggregation :: "StatusAggregation option"
  workforceUtilisation :: "WorkforceUtilisation option"
  costsByMonth :: "CostsByMonth option"

type_synonym ExternalEmployee = Employee

record SourceDataType =
  employees :: "Employee option"
  externals :: "ExternalEmployee option"

record TableDataType =
  person :: string
  past12Months :: string
  y2d :: string
  june :: string
  july :: string
  august :: string
  netEarningsPrevMonth :: string

section \<open>table-script.tsx\<close>

definition formatPercentage :: "string nullable \<Rightarrow> string" where
  "formatPercentage v =
     (case v of
        Null \<Rightarrow> ''N/A''
      | Undefined \<Rightarrow> ''N/A''
      | Val s \<Rightarrow>
          (let numValue = parseFloat s
           in if isNaN numValue then ''-''
              else toFixed (numMul numValue (ofNat 100)) 0 @ ''%''))"

definition parseSafeFloat :: "string nullable \<Rightarrow> number" where
  "parseSafeFloat v =
     (case v of
        Null \<Rightarrow> ofNat 0
      | Undefined \<Rightarrow> ofNat 0
      | Val s \<Rightarrow>
          if s = ''null'' \<or> trim s = [] then ofNat 0
          else (let num = parseFloat s in if isNaN num then ofNat 0 else num))"

text \<open>A string field in a condition: absent, \<open>null\<close> and the empty string are falsy.\<close>

definition truthy :: "string nullable \<Rightarrow> bool" where
  "truthy v = (case v of Val s \<Rightarrow> s \<noteq> [] | _ \<Rightarrow> False)"

definition earningsData :: "Employee \<Rightarrow> MonthlyFinancialEntry list" where
  "earningsData personData =
     (case Employee.costsByMonth personData of
        None \<Rightarrow> []
      | Some costsByMonthData \<Rightarrow>
          (case potentialEarningsByMonth costsByMonthData of
             Some a \<Rightarrow> a
           | None \<Rightarrow>
               (case CostsByMonth.costsByMonth costsByMonthData of
                  Some a \<Rightarrow> a
                | None \<Rightarrow> [])))"

definition monthlySalaryOf :: "Employee \<Rightarrow> string nullable" where
  "monthlySalaryOf personData =
     (case statusAggregation personData of
        None \<Rightarrow> Undefined
      | Some sa \<Rightarrow> monthlySalary sa)"

text \<open>Lines 118 to 128: the earnings of the previous month.\<close>

definition earningsPrevMonthOf :: "MonthlyFinancialEntry list \<Rightarrow> string \<Rightarrow> number" where
  "earningsPrevMonthOf earningsDataArray previousMonthFormatted =
     (case find (\<lambda>entry. month entry = Val previousMonthFormatted) earningsDataArray of
        None \<Rightarrow> ofNat 0
      | Some prevMonthEntry \<Rightarrow>
          (case costs prevMonthEntry of
             Val c \<Rightarrow> if c \<noteq> [] then parseFloat c else ofNat 0
           | _ \<Rightarrow> ofNat 0))"

definition calculateNetEarningsPrevMonth :: "(string \<Rightarrow> string) \<Rightarrow> Employee \<Rightarrow> string" where
  "calculateNetEarningsPrevMonth other personData =
     (let earningsDataArray = earningsData personData;
          monthlySalary = parseSafeFloat (monthlySalaryOf personData)
      in if earningsDataArray = [] then ''- EUR''
         else
           (case month (last earningsDataArray) of
              Val m \<Rightarrow>
                if m = [] then ''- EUR''
                else
                  (let previousMonthFormatted = dayjsPreviousMonth other m;
                       earningsPrevMonth = earningsPrevMonthOf earningsDataArray previousMonthFormatted;
                       netEarnings = numSub earningsPrevMonth monthlySalary
                   in toFixed netEarnings 2 @ '' EUR'')
            | _ \<Rightarrow> ''- EUR''))"

definition hasPerson :: "SourceDataType \<Rightarrow> bool" where
  "hasPerson dataRow = (employees dataRow \<noteq> None \<or> externals dataRow \<noteq> None)"

definition personDataOf :: "SourceDataType \<Rightarrow> Employee option" where
  "personDataOf dataRow =
     (case employees dataRow of
        Some e \<Rightarrow> Some e
      | None \<Rightarrow> externals dataRow)"

definition isActive :: "Employee option \<Rightarrow> bool" where
  "isActive personData =
     (case personData of
        None \<Rightarrow> False
      | Some p \<Rightarrow>
          (case statusAggregation p of
             None \<Rightarrow> False
           | Some sa \<Rightarrow> StatusAggregation.status sa = Val ''active'')
          \<or> Employee.status p = Val ''active'')"

definition utilisationRateAt :: "UtilisationEntry list \<Rightarrow> nat \<Rightarrow> string nullable" where
  "utilisationRateAt xs i = (if i < length xs then utilisationRate (xs ! i) else Undefined)"

text \<open>Lines 174 and 175: \<open>personData?.workforceUtilisation?.lastThreeMonthsIndividually || []\<close>.\<close>

definition lastThreeMonthsOf :: "Employee \<Rightarrow> UtilisationEntry list" where
  "lastThreeMonthsOf p =
     (case workforceUtilisation p of
        None \<Rightarrow> []
      | Some w \<Rightarrow> (case lastThreeMonthsIndividually w of None \<Rightarrow> [] | Some a \<Rightarrow> a))"

definition buildRow :: "(string \<Rightarrow> string) \<Rightarrow> Employee \<Rightarrow> TableDataType" where
  "buildRow other p =
     (let personName = (case name p of Val s \<Rightarrow> s | _ \<Rightarrow> []);
          wu = workforceUtilisation p;
          past12MonthsValue =
            formatPercentage (case wu of None \<Rightarrow> Undefined | Some w \<Rightarrow> utilisationRateLastTwelveMonths w);
          y2dValue =
            formatPercentage (case wu of None \<Rightarrow> Undefined | Some w \<Rightarrow> utilisationRateYearToDate w);
          lastThreeMonths = lastThreeMonthsOf p;
          juneValue = formatPercentage (utilisationRateAt lastThreeMonths 2);
          julyValue = formatPercentage (utilisationRateAt lastThreeMonths 1);
          augustValue = formatPercentage (utilisationRateAt lastThreeMonths 0);
          netEarningsPrevMonthValue = calculateNetEarningsPrevMonth other p
      in \<lparr>person = personName, past12Months = past12MonthsValue, y2d = y2dValue,
          june = juneValue, july = julyValue, august = augustValue,
          netEarningsPrevMonth = netEarningsPrevMonthValue\<rparr>)"

text \<open>The callback of \<open>.map\<close>: \<open>None\<close> is the \<open>null\<close> returned for a person who is not active.\<close>

definition mapRow :: "(string \<Rightarrow> string) \<Rightarrow> SourceDataType \<Rightarrow> TableDataType option" where
  "mapRow other dataRow =
     (let personData = personDataOf dataRow
      in if \<not> isActive personData then None
         else (case personData of None \<Rightarrow> None | Some p \<Rightarrow> Some (buildRow other p)))"

definition tableData :: "(string \<Rightarrow> string) \<Rightarrow> SourceDataType list \<Rightarrow> TableDataType list" where
  "tableData other sourceData =
     map the (filter (\<lambda>row. row \<noteq> None) (map (mapRow other) (filter hasPerson sourceData)))"

section \<open>Notions of the specification\<close>

text \<open>
  The records that pass both steps of the script: the first filter, and the activity
  test inside the \<open>.map\<close> callback.
\<close>

definition selected :: "SourceDataType \<Rightarrow> bool" where
  "selected dataRow = (hasPerson dataRow \<and> isActive (personDataOf dataRow))"

text \<open>\<open>statusAggregation.status\<close> of a person, \<open>Undefined\<close> without the sub-object.\<close>

definition nestedStatus :: "Employee \<Rightarrow> string nullable" where
  "nestedStatus p =
     (case statusAggregation p of
        None \<Rightarrow> Undefined
      | Some sa \<Rightarrow> StatusAggregation.status sa)"

text \<open>
  The status resolution as the specification words it: the nested status when it is
  present, the top-level status only when the nested one is absent.
\<close>

definition resolvedStatus_spec :: "Employee \<Rightarrow> string nullable" where
  "resolvedStatus_spec p =
     (case nestedStatus p of
        Val s \<Rightarrow> Val s
      | _ \<Rightarrow> Employee.status p)"

text \<open>
  The selection as the specification words it, read off the fields of a source record.
  The person of a record is its populated sub-record, an employee or else an external
  (section 3: a record holds at most one of them).  A person is active when the nested
  status or the top-level status equals the literal \<open>"active"\<close> (section 3: "active iff
  either equals").  A record counts when it has a person and that person is active.
\<close>

definition person_spec :: "SourceDataType \<Rightarrow> Employee option" where
  "person_spec r =
     (case (employees r, externals r) of
        (Some e, _) \<Rightarrow> Some e
      | (None, Some x) \<Rightarrow> Some x
      | (None, None) \<Rightarrow> None)"

definition active_spec :: "Employee \<Rightarrow> bool" where
  "active_spec p = (nestedStatus p = Val ''active'' \<or> Employee.status p = Val ''active'')"

definition selected_spec :: "SourceDataType \<Rightarrow> bool" where
  "selected_spec r =
     (case person_spec r of
        None \<Rightarrow> False
      | Some p \<Rightarrow> active_spec p)"

text \<open>Sample data for the concrete instances below.\<close>

definition noPerson :: Employee where
  "noPerson =
     \<lparr>name = Val ''Ann'', status = Undefined, statusAggregation = None,
      workforceUtilisation = None, costsByMonth = None\<rparr>"

definition withStatus :: "string nullable \<Rightarrow> string nullable \<Rightarrow> Employee" where
  "withStatus outer nested =
     noPerson\<lparr>status := outer,
       statusAggregation := Some \<lparr>StatusAggregation.status = nested, monthlySalary = Undefined\<rparr>\<rparr>"

definition withRates :: "string list \<Rightarrow> Employee" where
  "withRates rates =
     noPerson\<lparr>status := Val ''active'',
       workforceUtilisation :=
         Some \<lparr>utilisationRateLastTwelveMonths = Val ''0.8534'', utilisationRateYearToDate = Null,
               lastThreeMonthsIndividually = Some (map (\<lambda>r. \<lparr>utilisationRate = Val r\<rparr>) rates)\<rparr>\<rparr>"

definition withSeries :: "string nullable \<Rightarrow> (string \<times> string) list \<Rightarrow> Employee" where
  "withSeries salary series =
     noPerson\<lparr>status := Val ''active'',
       statusAggregation := Some \<lparr>StatusAggregation.status = Undefined, monthlySalary = salary\<rparr>,
       costsByMonth :=
         Some \<lparr>potentialEarningsByMonth = Some (map (\<lambda>(m, c). \<lparr>month = Val m, costs = Val c\<rparr>) series),
               CostsByMonth.costsByMonth = None\<rparr>\<rparr>"

text \<open>
  The month before a calendar month \<open>(year, month)\<close> as the specification words it, and
  the label \<open>YYYY-MM\<close> of a calendar month.
\<close>

definition previousMonth_spec :: "nat \<times> nat \<Rightarrow> nat \<times> nat" where
  "previousMonth_spec ym = (case ym of (y, m) \<Rightarrow> if m = 1 then (y - 1, 12) else (y, m - 1))"

definition monthLabel :: "nat \<times> nat \<Rightarrow> string" where
  "monthLabel ym = (case ym of (y, m) \<Rightarrow> padStart 4 (showNat y) @ ''-'' @ padStart 2 (showNat m))"

text \<open>Powers of two with an integer exponent, and the magnitude \<open>m * 2^e\<close> of a finite Number.\<close>

definition pow2 :: "int \<Rightarrow> rat" where
  "pow2 e = (if 0 \<le> e then 2 ^ nat e else 1 / 2 ^ nat (- e))"

definition magnitude :: "nat \<Rightarrow> int \<Rightarrow> rat" where
  "magnitude m e = (if 0 \<le> e then of_nat m * 2 ^ nat e else of_nat m / 2 ^ nat (- e))"

text \<open>
  The shapes of the formatted results: a whole number followed by \<open>%\<close>, and a number
  with two decimal places, each with an optional minus sign.
\<close>

definition isDigits :: "string \<Rightarrow> bool" where
  "isDigits s = (s \<noteq> [] \<and> list_all isDigit s)"

definition unsigned :: "string \<Rightarrow> string" where
  "unsigned t = (if t \<noteq> [] \<and> hd t = CHR ''-'' then tl t else t)"

definition wholePercent :: "string \<Rightarrow> bool" where
  "wholePercent t =
     (let body = unsigned t
      in body \<noteq> [] \<and> last body = CHR ''%'' \<and> isDigits (butlast body))"

definition twoDecimals :: "string \<Rightarrow> bool" where
  "twoDecimals t =
     (let body = unsigned t; n = length body
      in 4 \<le> n \<and> isDigits (take (n - 3) body) \<and> body ! (n - 3) = CHR ''.''
         \<and> isDigits (drop (n - 2) body))"

text \<open>
  Line 131: the net earnings for a reference month \<open>s\<close>, the previous month's earnings
  less the monthly salary.
\<close>

definition netEarningsOf :: "(string \<Rightarrow> string) \<Rightarrow> Employee \<Rightarrow> string \<Rightarrow> number" where
  "netEarningsOf other p s =
     numSub (earningsPrevMonthOf (earningsData p) (dayjsPreviousMonth other s))
       (parseSafeFloat (monthlySalaryOf p))"

section \<open>Evaluation on literals\<close>

lemma bitLength_eval [simp]:
  "bitLength 0 = 0"
  "bitLength (Suc 0) = 1"
  "bitLength 1 = 1"
  "bitLength (numeral (Num.Bit0 k)) = Suc (bitLength (numeral k))"
  "bitLength (numeral (Num.Bit1 k)) = Suc (bitLength (numeral k))"
  by (simp_all add: bitLength.simps [of "numeral _"] bitLength.simps [of 0]
      bitLength.simps [of "Suc 0"] numeral_Bit0_div_2 numeral_Bit1_div_2)

lemma stripTwos_eval [simp]:
  "stripTwos 0 e = (0, 0)"
  "stripTwos (Suc 0) e = (Suc 0, e)"
  "stripTwos 1 e = (1, e)"
  "stripTwos (numeral (Num.Bit0 k)) e = stripTwos (numeral k) (e + 1)"
  "stripTwos (numeral (Num.Bit1 k)) e = (numeral (Num.Bit1 k), e)"
  by (simp_all add: stripTwos.simps [of "numeral _"] stripTwos.simps [of 0]
      stripTwos.simps [of "Suc 0"] numeral_Bit0_div_2)

lemma showNat_eval [simp]:
  "showNat 0 = ''0''"
  "showNat (Suc 0) = ''1''"
  "showNat 1 = ''1''"
  "showNat (numeral k) =
     (if numeral k < (10::nat) then [digitChar (numeral k)]
      else showNat (numeral k div 10) @ [digitChar (numeral k mod 10)])"
  by (simp_all add: showNat.simps [of "numeral _"] showNat.simps [of 0]
      showNat.simps [of "Suc 0"] digitChar_def)

lemmas number_eval =
  roundRatio_def roundScaled_def ilog2_def roundHalfEven_def ofNat_def Let_def
  atLeast1e21_def fixedDigits_def toFixed_def padStart_def digitChar_def isNaN_def

lemmas parse_eval =
  parseFloat_def trimStart_def trim_def isWhiteSpace_def strUnsignedDecimalLiteral_def
  exponentPart_def signedInteger_def isDigit_def digitVal_def digitsVal_def

lemmas dayjs_eval =
  dayjsPreviousMonth_def isMonthLabel_def formatYearMonth_def

lemma replicate_eval: "replicate (numeral k) x = x # replicate (pred_numeral k) x"
  by (simp add: numeral_eq_Suc)

text \<open>Known values of binary64, parseFloat and toFixed.\<close>

lemma binary64_known_values:
  "roundRatio False 1 10 = Finite False 3602879701896397 (- 55)"
  "ofNat (2 ^ 53 + 1) = Finite False 1 53"
  "ofNat (2 ^ 53 + 3) = Finite False 2251799813685249 2"
  "ofNat (2 ^ 1024 - 2 ^ 970 - 1) = Finite False 9007199254740991 971"
  "ofNat (2 ^ 1024 - 2 ^ 970) = Infinity False"
  "roundRatio True 3 (2 ^ 1076) = Finite True 1 (- 1074)"
  "roundRatio False 1 (2 ^ 1075) = Finite False 0 0"
  by (simp_all add: number_eval)

lemma parseFloat_known_values:
  "parseFloat ''  -3.5e2x'' = Finite True 175 1"
  "parseFloat ''.5'' = Finite False 1 (- 1)"
  "parseFloat ''5.e3'' = Finite False 625 3"
  "parseFloat ''1e'' = Finite False 1 0"
  "parseFloat ''-0'' = Finite True 0 0"
  "parseFloat ''.'' = NaN"
  "parseFloat ''Inf'' = NaN"
  "parseFloat ''-Infinityx'' = Infinity True"
  "parseFloat ''1e400'' = Infinity False"
  by (simp_all add: parse_eval number_eval)

lemma toFixed_known_values:
  "toFixed (parseFloat ''1.005'') 2 = ''1.00''"
  "toFixed (parseFloat ''2.5'') 0 = ''3''"
  "toFixed (parseFloat ''-2.5'') 0 = ''-3''"
  "toFixed (parseFloat ''-0.001'') 2 = ''-0.00''"
  "toFixed (parseFloat ''-0'') 2 = ''0.00''"
  "toFixed (numSub (parseFloat ''0.3'') (parseFloat ''0.1'')) 2 = ''0.20''"
  by (simp_all add: parse_eval number_eval replicate_eval)

section \<open>Rounding to binary64 is to nearest\<close>

lemma pow2_pos: "0 < pow2 e"
  by (simp add: pow2_def)

lemma pow2_add: "pow2 (a + b) = pow2 a * pow2 b"
proof -
  have "pow2 e = 2 powi e" for e
    by (simp add: pow2_def power_int_def field_simps)
  then show ?thesis by (simp add: power_int_add)
qed

lemma pow2_Suc: "pow2 (e + 1) = 2 * pow2 e"
  using pow2_add [of e 1] by (simp add: pow2_def)

lemma magnitude_pow2: "magnitude m e = of_nat m * pow2 e"
  by (simp add: magnitude_def pow2_def)

lemma bitLength_bounds:
  "0 < n \<Longrightarrow> 2 ^ (bitLength n - 1) \<le> n \<and> n < 2 ^ bitLength n"
proof (induction n rule: bitLength.induct)
  case (1 n)
  show ?case
  proof (cases "n div 2 = 0")
    case True
    with "1.prems" have "n = 1" by presburger
    then show ?thesis by (simp add: bitLength.simps [of 1] bitLength.simps [of 0])
  next
    case False
    then have pos: "0 < n div 2" by simp
    with "1.IH" "1.prems" have IH: "2 ^ (bitLength (n div 2) - 1) \<le> n div 2"
      "n div 2 < 2 ^ bitLength (n div 2)" by simp_all
    have bl: "bitLength n = Suc (bitLength (n div 2))"
      using "1.prems" by (simp add: bitLength.simps [of n])
    have "0 < bitLength (n div 2)"
      using pos by (simp add: bitLength.simps [of "n div 2"])
    then have "(2::nat) ^ (bitLength n - 1) = 2 * 2 ^ (bitLength (n div 2) - 1)"
      by (cases "bitLength (n div 2)") (simp_all add: bl)
    then have lo: "2 ^ (bitLength n - 1) \<le> n" using IH(1) by linarith
    have hi: "n < 2 ^ bitLength n" using IH(2) by (simp add: bl)
    from lo hi show ?thesis by simp
  qed
qed


lemma pow2_diff: "pow2 (int a - int b) = 2 ^ a / 2 ^ b"
proof -
  have "pow2 e = 2 powi e" for e
    by (simp add: pow2_def power_int_def field_simps)
  then show ?thesis by (simp add: power_int_diff)
qed

lemma pow2_mono: "a \<le> b \<Longrightarrow> pow2 a \<le> pow2 b"
proof -
  assume "a \<le> b"
  have "pow2 e = 2 powi e" for e
    by (simp add: pow2_def power_int_def field_simps)
  then show ?thesis using \<open>a \<le> b\<close> by (simp add: power_int_increasing)
qed

lemma ratio_ge_pow2:
  assumes "0 < q"
  shows "(if 0 \<le> d then q * 2 ^ nat d \<le> p else q \<le> p * 2 ^ nat (- d))
     \<longleftrightarrow> pow2 d \<le> of_nat p / of_nat q"
proof (cases "0 \<le> d")
  case True
  have "pow2 d \<le> of_nat p / of_nat q \<longleftrightarrow> (of_nat (q * 2 ^ nat d) :: rat) \<le> of_nat p"
    using assms True by (simp add: pow2_def field_simps)
  then show ?thesis using True by (simp only: of_nat_le_iff if_True)
next
  case False
  have "pow2 d \<le> of_nat p / of_nat q \<longleftrightarrow> (of_nat q :: rat) \<le> of_nat (p * 2 ^ nat (- d))"
    using assms False by (simp add: pow2_def field_simps)
  then show ?thesis using False by (simp only: of_nat_le_iff if_False)
qed

lemma ilog2_bounds:
  assumes "0 < p" and "0 < q"
  shows "pow2 (ilog2 p q) \<le> of_nat p / of_nat q \<and> of_nat p / of_nat q < pow2 (ilog2 p q + 1)"
proof -
  let ?x = "of_nat p / of_nat q :: rat"
  let ?d = "int (bitLength p) - int (bitLength q)"
  have bp: "(2::rat) ^ (bitLength p - 1) \<le> of_nat p" "(of_nat p :: rat) < 2 ^ bitLength p"
    using bitLength_bounds [OF assms(1)]
    by (metis of_nat_le_iff of_nat_numeral of_nat_power, metis of_nat_less_iff of_nat_numeral of_nat_power)
  have bq: "(2::rat) ^ (bitLength q - 1) \<le> of_nat q" "(of_nat q :: rat) < 2 ^ bitLength q"
    using bitLength_bounds [OF assms(2)]
    by (metis of_nat_le_iff of_nat_numeral of_nat_power, metis of_nat_less_iff of_nat_numeral of_nat_power)
  have qpos: "(0::rat) < of_nat q" using assms(2) by simp
  have blq: "0 < bitLength q" using assms(2) by (simp add: bitLength.simps [of q])
  have blp: "0 < bitLength p" using assms(1) by (simp add: bitLength.simps [of p])
  have lower: "pow2 (?d - 1) \<le> ?x"
  proof -
    have "?d - 1 = int (bitLength p - 1) - int (bitLength q)"
      using blp by simp
    then have "pow2 (?d - 1) = 2 ^ (bitLength p - 1) / 2 ^ bitLength q"
      by (simp only: pow2_diff)
    also have "\<dots> \<le> of_nat p / 2 ^ bitLength q"
      using bp(1) by (simp add: divide_right_mono)
    also have "\<dots> \<le> ?x"
      using bq(2) qpos by (simp add: frac_le)
    finally show ?thesis .
  qed
  have upper: "?x < pow2 (?d + 1)"
  proof -
    have "?x < 2 ^ bitLength p / of_nat q"
      using bp(2) qpos by (simp add: divide_strict_right_mono)
    also have "\<dots> \<le> 2 ^ bitLength p / 2 ^ (bitLength q - 1)"
      using bq(1) by (simp add: frac_le)
    also have "\<dots> = pow2 (?d + 1)"
    proof -
      have "?d + 1 = int (bitLength p) - int (bitLength q - 1)"
        using blq by simp
      then show ?thesis by (simp only: pow2_diff)
    qed
    finally show ?thesis .
  qed
  show ?thesis
  proof (cases "pow2 ?d \<le> ?x")
    case True
    then have "ilog2 p q = ?d"
      using ratio_ge_pow2 [OF assms(2), of ?d p] by (simp add: ilog2_def Let_def)
    then show ?thesis using True upper by simp
  next
    case False
    then have "ilog2 p q = ?d - 1"
      using ratio_ge_pow2 [OF assms(2), of ?d p] by (simp add: ilog2_def Let_def)
    then show ?thesis using False lower by simp
  qed
qed

lemma roundHalfEven_error:
  assumes "0 < den"
  shows "\<bar>of_nat num / of_nat den - (of_nat (roundHalfEven num den) :: rat)\<bar> \<le> 1 / 2"
proof -
  let ?n = "num div den" and ?r = "num mod den"
  have dpos: "(0::rat) < of_nat den" using assms by simp
  have split: "(of_nat num :: rat) = of_nat ?n * of_nat den + of_nat ?r"
    by (metis div_mult_mod_eq of_nat_add of_nat_mult)
  then have quot: "of_nat num / of_nat den = (of_nat ?n :: rat) + of_nat ?r / of_nat den"
    using dpos by (simp add: field_simps)
  have rlt: "?r < den" using assms by simp
  have frac: "(0::rat) \<le> of_nat ?r / of_nat den" "of_nat ?r / of_nat den < (1::rat)"
    using rlt dpos by simp_all
  consider "2 * ?r < den" | "den < 2 * ?r" | "2 * ?r = den" by linarith
  then show ?thesis
  proof cases
    case 1
    then have "(of_nat (2 * ?r) :: rat) < of_nat den" by (simp only: of_nat_less_iff)
    then have "of_nat ?r / of_nat den < (1 / 2 :: rat)" using dpos by (simp add: field_simps)
    moreover have "roundHalfEven num den = ?n" using 1 by (simp add: roundHalfEven_def Let_def)
    ultimately show ?thesis using quot frac by simp
  next
    case 2
    then have "(of_nat den :: rat) < of_nat (2 * ?r)" by (simp only: of_nat_less_iff)
    then have "(1 / 2 :: rat) < of_nat ?r / of_nat den" using dpos by (simp add: field_simps)
    moreover have "roundHalfEven num den = ?n + 1" using 2 by (simp add: roundHalfEven_def Let_def)
    ultimately show ?thesis using quot frac by simp
  next
    case 3
    then have "(of_nat (2 * ?r) :: rat) = of_nat den" by simp
    then have half: "of_nat ?r / of_nat den = (1 / 2 :: rat)" using dpos by (simp add: field_simps)
    have "roundHalfEven num den = ?n \<or> roundHalfEven num den = ?n + 1"
      using 3 by (simp add: roundHalfEven_def Let_def)
    then show ?thesis using quot half by auto
  qed
qed

lemma stripTwos_value:
  "stripTwos n t = (m, e) \<Longrightarrow> of_nat m * pow2 e = of_nat n * pow2 t"
proof (induction n t rule: stripTwos.induct)
  case (1 n t)
  show ?case
  proof (cases "n = 0")
    case True
    then show ?thesis using "1.prems" by (simp add: stripTwos.simps [of n t])
  next
    case False
    show ?thesis
    proof (cases "even n")
      case True
      then have "stripTwos (n div 2) (t + 1) = (m, e)"
        using False "1.prems" by (simp add: stripTwos.simps [of n t])
      then have "of_nat m * pow2 e = of_nat (n div 2) * pow2 (t + 1)"
        using "1.IH" False True by simp
      also have "\<dots> = of_nat (n div 2) * 2 * pow2 t"
        by (simp add: pow2_Suc)
      also have "of_nat (n div 2) * (2::rat) = of_nat n"
        using True by (metis dvd_div_mult_self of_nat_mult of_nat_numeral)
      finally show ?thesis .
    next
      case odd: False
      then show ?thesis using False "1.prems" by (simp add: stripTwos.simps [of n t])
    qed
  qed
qed

text \<open>
  The Number value for a positive ratio \<open>p / q\<close>: a multiple \<open>n * 2^t\<close> of the quantum
  \<open>2^t\<close> with \<open>n \<le> 2^53\<close>, where \<open>t\<close> is the binary exponent of the ratio (at least
  -1022) less 52, and within half a quantum of the ratio.
\<close>

theorem roundRatio_nearest:
  assumes "0 < p" and "0 < q" and "roundRatio neg p q = Finite s m e"
  shows "s = neg
     \<and> \<bar>of_nat p / of_nat q - magnitude m e\<bar> \<le> pow2 (max (ilog2 p q) (- 1022) - 53)
     \<and> (\<exists>n\<le>2 ^ 53. magnitude m e = of_nat n * pow2 (max (ilog2 p q) (- 1022) - 52))"
proof -
  define x :: rat where "x = of_nat p / of_nat q"
  define t where "t = max (ilog2 p q) (- 1022) - 52"
  define n where
    "n = (if 0 \<le> t then roundHalfEven p (q * 2 ^ nat t) else roundHalfEven (p * 2 ^ nat (- t)) q)"
  have tpos: "0 < pow2 t" by (rule pow2_pos)
  have res: "s = neg" "stripTwos n t = (m, e)"
    using assms unfolding n_def t_def
    by (auto simp add: roundRatio_def Let_def split: if_splits prod.splits)
  have mag: "magnitude m e = of_nat n * pow2 t"
    using stripTwos_value [OF res(2)] by (simp add: magnitude_pow2)
  have scaled: "\<bar>x / pow2 t - of_nat n\<bar> \<le> 1 / 2"
  proof (cases "0 \<le> t")
    case True
    have "x / pow2 t = of_nat p / of_nat (q * 2 ^ nat t)"
      using True by (simp add: pow2_def x_def)
    moreover have "0 < q * 2 ^ nat t" using assms(2) by simp
    moreover have "n = roundHalfEven p (q * 2 ^ nat t)" using True by (simp add: n_def)
    ultimately show ?thesis using roundHalfEven_error [of "q * 2 ^ nat t" p] by simp
  next
    case False
    have "x / pow2 t = of_nat (p * 2 ^ nat (- t)) / of_nat q"
      using False by (simp add: pow2_def x_def)
    moreover have "n = roundHalfEven (p * 2 ^ nat (- t)) q" using False by (simp add: n_def)
    ultimately show ?thesis using roundHalfEven_error [OF assms(2), of "p * 2 ^ nat (- t)"] by simp
  qed
  have "x - of_nat n * pow2 t = (x / pow2 t - of_nat n) * pow2 t"
    using tpos by (simp add: field_simps)
  then have "\<bar>x - of_nat n * pow2 t\<bar> = \<bar>x / pow2 t - of_nat n\<bar> * pow2 t"
    using tpos by (simp add: abs_mult)
  also have "\<dots> \<le> 1 / 2 * pow2 t"
    using scaled tpos by (simp only: mult_right_mono less_imp_le)
  also have "\<dots> = pow2 (t - 1)"
    using pow2_Suc [of "t - 1"] by simp
  finally have err: "\<bar>x - magnitude m e\<bar> \<le> pow2 (t - 1)"
    by (simp add: mag)
  have "x < pow2 (ilog2 p q + 1)"
    using ilog2_bounds [OF assms(1,2)] by (simp add: x_def)
  also have "\<dots> \<le> pow2 (t + 53)"
    by (rule pow2_mono) (simp add: t_def)
  also have "\<dots> = pow2 t * 2 ^ 53"
  proof -
    have "pow2 53 = 2 ^ 53" by (simp add: pow2_def)
    then show ?thesis by (simp only: pow2_add)
  qed
  finally have "x / pow2 t < 2 ^ 53"
    using tpos by (simp add: field_simps)
  with scaled have "(of_nat n :: rat) < 2 ^ 53 + 1" by linarith
  then have "(of_nat n :: rat) < of_nat (2 ^ 53 + 1)" by simp
  then have "n < 2 ^ 53 + 1" by (simp only: of_nat_less_iff)
  then have "n \<le> 2 ^ 53" by simp
  with mag have bound: "\<exists>n\<le>2 ^ 53. magnitude m e = of_nat n * pow2 t" by blast
  have "t - 1 = max (ilog2 p q) (- 1022) - 53" by (simp add: t_def)
  with res(1) err bound show ?thesis by (simp add: x_def t_def)
qed

section \<open>formatPercentage at the half-way case\<close>

text \<open>
  C2.  \<open>formatPercentage("0.855")\<close> is \<open>"86%"\<close>: the Number nearest to 0.855, times 100,
  is exactly 85.5 in binary64, and toFixed(0) takes the larger integer at the tie.
\<close>

theorem formatPercentage_0855:
  "numMul (parseFloat ''0.855'') (ofNat 100) = Finite False 171 (- 1)
   \<and> magnitude 171 (- 1) = 171 / 2
   \<and> formatPercentage (Val ''0.855'') = ''86%''"
  by (simp add: formatPercentage_def magnitude_def parse_eval number_eval)

section \<open>The Selector\<close>

lemma mapRow_eq:
  "mapRow other dataRow =
     (case personDataOf dataRow of
        None \<Rightarrow> None
      | Some p \<Rightarrow> if isActive (Some p) then Some (buildRow other p) else None)"
  by (simp add: mapRow_def isActive_def split: option.splits)

lemma hasPerson_iff: "hasPerson dataRow \<longleftrightarrow> personDataOf dataRow \<noteq> None"
  by (simp add: hasPerson_def personDataOf_def split: option.splits)

lemma isActive_iff:
  "isActive (Some p) \<longleftrightarrow> nestedStatus p = Val ''active'' \<or> Employee.status p = Val ''active''"
  by (simp add: isActive_def nestedStatus_def split: option.splits)

lemma tableData_eq_map:
  "tableData other sourceData =
     map (\<lambda>dataRow. buildRow other (the (personDataOf dataRow))) (filter selected sourceData)"
proof (induction sourceData)
  case Nil
  show ?case by (simp add: tableData_def)
next
  case (Cons r rs)
  have IH: "map the (filter (\<lambda>row. row \<noteq> None) (map (mapRow other) (filter hasPerson rs))) =
     map (\<lambda>dataRow. buildRow other (the (personDataOf dataRow))) (filter selected rs)"
    using Cons.IH by (simp add: tableData_def)
  show ?case
  proof (cases "personDataOf r")
    case None
    then have "\<not> hasPerson r" "\<not> selected r"
      by (simp_all add: selected_def hasPerson_iff)
    then show ?thesis using IH by (simp add: tableData_def)
  next
    case (Some p)
    then have h: "hasPerson r" "selected r \<longleftrightarrow> isActive (Some p)"
      by (simp_all add: selected_def hasPerson_iff)
    show ?thesis
    proof (cases "isActive (Some p)")
      case True
      then show ?thesis using IH h Some by (simp add: tableData_def mapRow_eq)
    next
      case False
      then show ?thesis using IH h Some by (simp add: tableData_def mapRow_eq)
    qed
  qed
qed

lemma tableData_single:
  "personDataOf dataRow = Some p \<Longrightarrow>
   tableData other [dataRow] = (if isActive (Some p) then [buildRow other p] else [])"
  by (simp add: tableData_eq_map selected_def hasPerson_iff)

lemma person_spec_eq: "person_spec r = personDataOf r"
  by (simp add: person_spec_def personDataOf_def split: option.splits)

lemma selected_spec_eq: "selected_spec r = selected r"
  by (simp add: selected_spec_def active_spec_def person_spec_eq selected_def hasPerson_iff
      isActive_iff split: option.splits)

text \<open>
  C4.  The output has exactly one row per source record that has a populated employees
  or externals sub-record and whose person is active, in the order of the source: the
  row built from that record's person.  So the number of rows is the number of such
  records, and at most the number of source records.
\<close>

theorem tableData_row_count:
  "length (tableData other sourceData) = length (filter selected_spec sourceData)
   \<and> length (tableData other sourceData) \<le> length sourceData
   \<and> tableData other sourceData =
       map (\<lambda>r. buildRow other (the (person_spec r))) (filter selected_spec sourceData)"
proof -
  have "selected_spec = selected"
    by (rule ext) (rule selected_spec_eq)
  then show ?thesis
    by (simp add: tableData_eq_map person_spec_eq)
qed

theorem tableData_row_count_witness:
  "length (tableData id
     [\<lparr>employees = Some (withStatus Undefined (Val ''active'')), externals = None\<rparr>,
      \<lparr>employees = None, externals = None\<rparr>,
      \<lparr>employees = None, externals = Some (withStatus (Val ''active'') Null)\<rparr>,
      \<lparr>employees = None, externals = Some (withStatus (Val ''left'') Null)\<rparr>,
      \<lparr>employees = Some (withStatus (Val ''left'') Undefined),
       externals = Some (withStatus (Val ''active'') Undefined)\<rparr>]) = 2
   \<and> tableData id [\<lparr>employees = None, externals = Some (withStatus (Val ''active'') Null)\<rparr>]
       = [buildRow id (withStatus (Val ''active'') Null)]"
  using tableData_row_count [of id
     "[\<lparr>employees = Some (withStatus Undefined (Val ''active'')), externals = None\<rparr>,
      \<lparr>employees = None, externals = None\<rparr>,
      \<lparr>employees = None, externals = Some (withStatus (Val ''active'') Null)\<rparr>,
      \<lparr>employees = None, externals = Some (withStatus (Val ''left'') Null)\<rparr>,
      \<lparr>employees = Some (withStatus (Val ''left'') Undefined),
       externals = Some (withStatus (Val ''active'') Undefined)\<rparr>]"]
    tableData_row_count [of id
     "[\<lparr>employees = None, externals = Some (withStatus (Val ''active'') Null)\<rparr>]"]
  by (simp add: selected_spec_def person_spec_def active_spec_def nestedStatus_def withStatus_def
      noPerson_def)


text \<open>
  C3, as the code has it.  A record with a populated person survives the Selector
  exactly when the nested status is \<open>"active"\<close> or the top-level status is \<open>"active"\<close>:
  the top-level status is consulted whenever the nested one is not \<open>"active"\<close>, absent
  or not.  Where the nested status is absent this is the resolution of the
  specification.
\<close>

theorem selector_status:
  assumes "personDataOf dataRow = Some p"
  shows "(tableData other [dataRow] \<noteq> [] \<longleftrightarrow>
            nestedStatus p = Val ''active'' \<or> Employee.status p = Val ''active'')
         \<and> (tableData other [dataRow] \<noteq> [] \<longleftrightarrow>
            resolvedStatus_spec p = Val ''active'' \<or> Employee.status p = Val ''active'')
         \<and> ((case nestedStatus p of Val s \<Rightarrow> False | _ \<Rightarrow> True) \<longrightarrow>
            (tableData other [dataRow] \<noteq> [] \<longleftrightarrow> resolvedStatus_spec p = Val ''active''))"
  using assms
  by (auto simp add: tableData_single isActive_iff resolvedStatus_spec_def split: nullable.splits)

theorem selector_status_witness:
  "tableData id [\<lparr>employees = None, externals = Some (withStatus (Val ''active'') Undefined)\<rparr>] \<noteq> []
   \<and> tableData id [\<lparr>employees = None, externals = Some (withStatus (Val ''left'') Undefined)\<rparr>] = []"
  using selector_status [of "\<lparr>employees = None, externals = Some (withStatus (Val ''active'') Undefined)\<rparr>"
      "withStatus (Val ''active'') Undefined" id]
    selector_status [of "\<lparr>employees = None, externals = Some (withStatus (Val ''left'') Undefined)\<rparr>"
      "withStatus (Val ''left'') Undefined" id]
  by (simp add: personDataOf_def nestedStatus_def resolvedStatus_spec_def withStatus_def noPerson_def)

text \<open>
  C3, as the specification words it, fails: with the nested status \<open>"inactive"\<close> and the
  top-level status \<open>"active"\<close> the resolved status of the specification is \<open>"inactive"\<close>,
  and the record is kept.
\<close>

theorem selector_status_counterexample:
  "resolvedStatus_spec (withStatus (Val ''active'') (Val ''inactive'')) = Val ''inactive''
   \<and> length (tableData id
        [\<lparr>employees = Some (withStatus (Val ''active'') (Val ''inactive'')), externals = None\<rparr>]) = 1"
  by (simp add: tableData_def hasPerson_def mapRow_def personDataOf_def isActive_def
      resolvedStatus_spec_def nestedStatus_def withStatus_def noPerson_def)

section \<open>parseSafeFloat\<close>

lemma dropWhile_Nil_iff: "dropWhile P xs = [] \<longleftrightarrow> list_all P xs"
  by (induction xs) auto

lemma list_all_dropWhile: "list_all P (dropWhile P xs) \<longleftrightarrow> list_all P xs"
  by (induction xs) auto

lemma trim_Nil_iff: "trim s = [] \<longleftrightarrow> list_all isWhiteSpace s"
proof -
  have "trim s = [] \<longleftrightarrow> list_all isWhiteSpace (dropWhile isWhiteSpace s)"
    by (simp add: trim_def dropWhile_Nil_iff list_all_iff)
  then show ?thesis by (simp add: list_all_dropWhile)
qed

lemma ofNat_0: "ofNat 0 = Finite False 0 0"
  by (simp add: ofNat_def roundRatio_def)

text \<open>
  C9.  parseSafeFloat returns 0 for \<open>null\<close>, \<open>undefined\<close>, the string \<open>"null"\<close>, a string
  of white space only (the empty string among them) and a string that parseFloat
  cannot read; for every other string it returns what parseFloat reads.  For \<open>"3.5"\<close>
  that is \<open>7 * 2^-1\<close>, the Number 3.5.
\<close>

theorem parseSafeFloat_cases:
  "parseSafeFloat Null = Finite False 0 0
   \<and> parseSafeFloat Undefined = Finite False 0 0
   \<and> parseSafeFloat (Val ''null'') = Finite False 0 0
   \<and> (list_all isWhiteSpace s \<longrightarrow> parseSafeFloat (Val s) = Finite False 0 0)
   \<and> (parseFloat s = NaN \<longrightarrow> parseSafeFloat (Val s) = Finite False 0 0)
   \<and> (s \<noteq> ''null'' \<and> \<not> list_all isWhiteSpace s \<and> parseFloat s \<noteq> NaN \<longrightarrow>
        parseSafeFloat (Val s) = parseFloat s)
   \<and> parseSafeFloat (Val ''3.5'') = Finite False 7 (- 1)
   \<and> magnitude 7 (- 1) = 7 / 2"
proof -
  have absent: "parseSafeFloat Null = Finite False 0 0" "parseSafeFloat Undefined = Finite False 0 0"
    "parseSafeFloat (Val ''null'') = Finite False 0 0"
    by (simp_all add: parseSafeFloat_def ofNat_0)
  have blank: "list_all isWhiteSpace s \<longrightarrow> parseSafeFloat (Val s) = Finite False 0 0"
    by (simp add: parseSafeFloat_def ofNat_0 trim_Nil_iff)
  have unparseable: "parseFloat s = NaN \<longrightarrow> parseSafeFloat (Val s) = Finite False 0 0"
    by (simp add: parseSafeFloat_def ofNat_0 isNaN_def Let_def)
  have parsed: "s \<noteq> ''null'' \<and> \<not> list_all isWhiteSpace s \<and> parseFloat s \<noteq> NaN \<longrightarrow>
        parseSafeFloat (Val s) = parseFloat s"
    by (simp add: parseSafeFloat_def isNaN_def trim_Nil_iff Let_def)
  have ex: "parseSafeFloat (Val ''3.5'') = Finite False 7 (- 1)"
    by (simp add: parseSafeFloat_def parse_eval number_eval)
  have half: "magnitude 7 (- 1) = 7 / 2"
    by (simp add: magnitude_def)
  from absent blank unparseable parsed ex half show ?thesis by blast
qed

theorem parseSafeFloat_cases_witness:
  "parseSafeFloat (Val '' '') = Finite False 0 0
   \<and> parseSafeFloat (Val ''abc'') = Finite False 0 0
   \<and> parseSafeFloat (Val ''12abc'') = Finite False 3 2"
  using parseSafeFloat_cases [of "'' ''"] parseSafeFloat_cases [of "''abc''"]
    parseSafeFloat_cases [of "''12abc''"]
  by (simp add: parse_eval number_eval)

section \<open>The month columns\<close>

lemma formatPercentage_missing:
  "formatPercentage Null = ''N/A''" "formatPercentage Undefined = ''N/A''"
  by (simp_all add: formatPercentage_def)

lemma formatPercentage_samples:
  "formatPercentage (Val ''0.9'') = ''90%''"
  "formatPercentage (Val ''0.8'') = ''80%''"
  "formatPercentage (Val ''0.7'') = ''70%''"
  by (simp_all add: formatPercentage_def parse_eval number_eval)

lemma buildRow_months:
  "june (buildRow other p) = formatPercentage (utilisationRateAt (lastThreeMonthsOf p) 2)"
  "july (buildRow other p) = formatPercentage (utilisationRateAt (lastThreeMonthsOf p) 1)"
  "august (buildRow other p) = formatPercentage (utilisationRateAt (lastThreeMonthsOf p) 0)"
  by (simp_all add: buildRow_def Let_def)

text \<open>
  C7.  The row of an active person shows in \<open>june\<close>, \<open>july\<close> and \<open>august\<close> the
  percentage format of the \<open>utilisationRate\<close> at index 2, 1 and 0 of
  \<open>lastThreeMonthsIndividually\<close>, and \<open>"N/A"\<close> for an index beyond the end of the array.
  The rates 0.9, 0.8, 0.7 give august 90%, july 80% and june 70%.
\<close>

theorem month_columns:
  assumes "personDataOf dataRow = Some p" and "isActive (Some p)" and "lastThreeMonthsOf p = xs"
  shows "tableData other [dataRow] = [buildRow other p]
     \<and> june (buildRow other p)
         = (if 2 < length xs then formatPercentage (utilisationRate (xs ! 2)) else ''N/A'')
     \<and> july (buildRow other p)
         = (if 1 < length xs then formatPercentage (utilisationRate (xs ! 1)) else ''N/A'')
     \<and> august (buildRow other p)
         = (if 0 < length xs then formatPercentage (utilisationRate (xs ! 0)) else ''N/A'')
     \<and> map (\<lambda>row. (june row, july row, august row))
          (tableData other
             [\<lparr>employees = Some (withRates [''0.9'', ''0.8'', ''0.7'']), externals = None\<rparr>])
         = [(''70%'', ''80%'', ''90%'')]"
proof -
  have row: "tableData other [dataRow] = [buildRow other p]"
    using assms(1,2) by (simp add: tableData_single)
  have months: "june (buildRow other p)
         = (if 2 < length xs then formatPercentage (utilisationRate (xs ! 2)) else ''N/A'')"
    "july (buildRow other p)
         = (if 1 < length xs then formatPercentage (utilisationRate (xs ! 1)) else ''N/A'')"
    "august (buildRow other p)
         = (if 0 < length xs then formatPercentage (utilisationRate (xs ! 0)) else ''N/A'')"
    using assms(3) by (simp_all add: buildRow_months utilisationRateAt_def formatPercentage_missing)
  have sample: "personDataOf \<lparr>employees = Some (withRates [''0.9'', ''0.8'', ''0.7'']), externals = None\<rparr>
      = Some (withRates [''0.9'', ''0.8'', ''0.7''])"
    "isActive (Some (withRates [''0.9'', ''0.8'', ''0.7'']))"
    "lastThreeMonthsOf (withRates [''0.9'', ''0.8'', ''0.7''])
      = [\<lparr>utilisationRate = Val ''0.9''\<rparr>, \<lparr>utilisationRate = Val ''0.8''\<rparr>, \<lparr>utilisationRate = Val ''0.7''\<rparr>]"
    by (simp_all add: personDataOf_def isActive_def lastThreeMonthsOf_def withRates_def noPerson_def)
  have ex: "map (\<lambda>row. (june row, july row, august row))
          (tableData other
             [\<lparr>employees = Some (withRates [''0.9'', ''0.8'', ''0.7'']), externals = None\<rparr>])
         = [(''70%'', ''80%'', ''90%'')]"
    by (simp add: tableData_single [OF sample(1)] sample(2,3) buildRow_months utilisationRateAt_def
        formatPercentage_samples)
  from row months ex show ?thesis by blast
qed

theorem month_columns_witness:
  "map (\<lambda>row. (june row, july row, august row))
     (tableData id [\<lparr>employees = None, externals = Some (withRates [''0.9'', ''0.8''])\<rparr>])
     = [(''N/A'', ''80%'', ''90%'')]"
  using month_columns [of "\<lparr>employees = None, externals = Some (withRates [''0.9'', ''0.8''])\<rparr>"
      "withRates [''0.9'', ''0.8'']"
      "[\<lparr>utilisationRate = Val ''0.9''\<rparr>, \<lparr>utilisationRate = Val ''0.8''\<rparr>]" id]
  by (simp add: personDataOf_def isActive_def lastThreeMonthsOf_def withRates_def noPerson_def
      formatPercentage_samples)

section \<open>calculateNetEarningsPrevMonth\<close>

text \<open>
  C1.  The costs of the previous month's entry go through parseFloat, not through
  parseSafeFloat: the costs \<open>"null"\<close> give NaN and the result \<open>"NaN EUR"\<close>, where
  parseSafeFloat gives 0, which is what a series without an entry for the previous
  month gives (\<open>"-800.00 EUR"\<close>).
\<close>

theorem prevMonth_costs_unsafe:
  "earningsPrevMonthOf
     (earningsData (withSeries (Val ''800'') [(''2024-05'', ''null''), (''2024-06'', ''1200'')]))
     (dayjsPreviousMonth other ''2024-06'') = NaN
   \<and> calculateNetEarningsPrevMonth other
        (withSeries (Val ''800'') [(''2024-05'', ''null''), (''2024-06'', ''1200'')]) = ''NaN EUR''
   \<and> parseSafeFloat (Val ''null'') = Finite False 0 0
   \<and> calculateNetEarningsPrevMonth other
        (withSeries (Val ''800'') [(''2024-04'', ''null''), (''2024-06'', ''1200'')]) = ''-800.00 EUR''"
proof -
  have label: "dayjsPreviousMonth other ''2024-06'' = ''2024-05''"
    by (simp add: dayjs_eval parse_eval number_eval)
  have salary: "parseSafeFloat (Val ''800'') = Finite False 25 5"
    by (simp add: parseSafeFloat_def parse_eval number_eval)
  have unsafe: "parseFloat ''null'' = NaN"
    by (simp add: parse_eval)
  have safe: "parseSafeFloat (Val ''null'') = Finite False 0 0"
    by (simp add: parseSafeFloat_def ofNat_0)
  show ?thesis
    by (simp add: calculateNetEarningsPrevMonth_def earningsPrevMonthOf_def earningsData_def
        monthlySalaryOf_def withSeries_def noPerson_def label salary unsafe safe ofNat_0
        number_eval)
qed

lemma formatYearMonth_previous:
  assumes "1 \<le> mo" and "mo \<le> 12"
  shows "formatYearMonth (12 * int y + int mo - 2) = monthLabel (previousMonth_spec (y, mo))"
proof (cases "mo = 1")
  case True
  have "12 * int y + 1 - 2 = (int y - 1) * 12 + 11"
    by simp
  then have "(12 * int y + 1 - 2) div 12 = int y - 1" "(12 * int y + 1 - 2) mod 12 = 11"
    by (simp_all only: div_mult_self3 mod_mult_self3) simp_all
  moreover have "nat (int y - 1) = y - 1"
    by simp
  ultimately show ?thesis using True
    by (simp add: formatYearMonth_def monthLabel_def previousMonth_spec_def)
next
  case False
  with assms have range: "0 \<le> int mo - 2" "int mo - 2 < 12"
    by simp_all
  have "12 * int y + int mo - 2 = int y * 12 + (int mo - 2)"
    by simp
  then have "(12 * int y + int mo - 2) div 12 = int y"
    "(12 * int y + int mo - 2) mod 12 = int mo - 2"
    using range by (simp_all only: div_mult_self3 mod_mult_self3) simp_all
  moreover have "nat (int mo - 2 + 1) = mo - 1"
    using False assms by simp
  ultimately show ?thesis using False
    by (simp add: formatYearMonth_def monthLabel_def previousMonth_spec_def)
qed

lemma calculateNetEarningsPrevMonth_present:
  assumes "earningsData p \<noteq> []" and "month (last (earningsData p)) = Val s" and "s \<noteq> []"
  shows "calculateNetEarningsPrevMonth other p =
     toFixed (numSub (earningsPrevMonthOf (earningsData p) (dayjsPreviousMonth other s))
                (parseSafeFloat (monthlySalaryOf p))) 2 @ '' EUR''"
  using assms by (simp add: calculateNetEarningsPrevMonth_def Let_def)

text \<open>
  C5, for the years dayjs reads as written.  For a reference month \<open>YYYY-MM\<close> with a
  year from 0100 on and a month from 01 to 12, the label looked up is that of the
  calendar month before, the year going back by one from January.
\<close>

theorem previous_month_label:
  assumes "isMonthLabel s"
    and "100 \<le> digitsVal (take 4 s)"
    and "1 \<le> digitsVal (drop 5 s)" and "digitsVal (drop 5 s) \<le> 12"
  shows "dayjsPreviousMonth other s
           = monthLabel (previousMonth_spec (digitsVal (take 4 s), digitsVal (drop 5 s)))
     \<and> (earningsData p \<noteq> [] \<and> month (last (earningsData p)) = Val s \<longrightarrow>
          calculateNetEarningsPrevMonth other p =
            toFixed (numSub
              (earningsPrevMonthOf (earningsData p)
                 (monthLabel (previousMonth_spec (digitsVal (take 4 s), digitsVal (drop 5 s)))))
              (parseSafeFloat (monthlySalaryOf p))) 2 @ '' EUR'')
     \<and> dayjsPreviousMonth other ''2024-07'' = ''2024-06''
     \<and> dayjsPreviousMonth other ''2024-01'' = ''2023-12''"
proof -
  have label: "dayjsPreviousMonth other s
           = monthLabel (previousMonth_spec (digitsVal (take 4 s), digitsVal (drop 5 s)))"
    using assms by (simp add: dayjsPreviousMonth_def Let_def formatYearMonth_previous)
  have "s \<noteq> []" using assms(1) by (auto simp add: isMonthLabel_def)
  then have lookup: "earningsData p \<noteq> [] \<and> month (last (earningsData p)) = Val s \<longrightarrow>
          calculateNetEarningsPrevMonth other p =
            toFixed (numSub
              (earningsPrevMonthOf (earningsData p)
                 (monthLabel (previousMonth_spec (digitsVal (take 4 s), digitsVal (drop 5 s)))))
              (parseSafeFloat (monthlySalaryOf p))) 2 @ '' EUR''"
    by (simp add: calculateNetEarningsPrevMonth_present label [symmetric])
  have ex: "dayjsPreviousMonth other ''2024-07'' = ''2024-06''"
    "dayjsPreviousMonth other ''2024-01'' = ''2023-12''"
    by (simp_all add: dayjs_eval parse_eval number_eval)
  from label lookup ex show ?thesis by blast
qed

theorem previous_month_label_witness:
  "dayjsPreviousMonth id ''2024-01'' = ''2023-12''
   \<and> calculateNetEarningsPrevMonth id
        (withSeries (Val ''800'') [(''2023-12'', ''1000''), (''2024-01'', ''1200'')]) = ''200.00 EUR''"
proof -
  have salary: "parseSafeFloat (Val ''800'') = Finite False 25 5"
    by (simp add: parseSafeFloat_def parse_eval number_eval)
  have costs: "parseFloat ''1000'' = Finite False 125 3"
    by (simp add: parse_eval number_eval)
  show ?thesis
    using previous_month_label [of "''2024-01''" id
        "withSeries (Val ''800'') [(''2023-12'', ''1000''), (''2024-01'', ''1200'')]"]
    by (simp add: isMonthLabel_def isDigit_def digitsVal_def digitVal_def monthLabel_def
        previousMonth_spec_def earningsData_def monthlySalaryOf_def earningsPrevMonthOf_def
        withSeries_def noPerson_def salary costs number_eval)
qed

text \<open>
  C5 fails for a year below 0100, which the Date constructor reads as 1900 + year: the
  month before \<open>0050-03\<close> is looked up as \<open>1950-02\<close>, so the entry of \<open>0050-02\<close> is
  not found.
\<close>

theorem previous_month_label_counterexample:
  "isMonthLabel ''0050-03''
   \<and> monthLabel (previousMonth_spec (50, 3)) = ''0050-02''
   \<and> dayjsPreviousMonth id ''0050-03'' = ''1950-02''
   \<and> calculateNetEarningsPrevMonth id
        (withSeries (Val ''0'') [(''0050-02'', ''100''), (''0050-03'', ''1'')]) = ''0.00 EUR''"
proof -
  have label: "dayjsPreviousMonth id ''0050-03'' = ''1950-02''"
    by (simp add: dayjs_eval parse_eval number_eval)
  have salary: "parseSafeFloat (Val ''0'') = Finite False 0 0"
    by (simp add: parseSafeFloat_def parse_eval number_eval)
  show ?thesis
    by (simp add: label salary isMonthLabel_def isDigit_def monthLabel_def previousMonth_spec_def
        calculateNetEarningsPrevMonth_def earningsData_def monthlySalaryOf_def
        earningsPrevMonthOf_def withSeries_def noPerson_def ofNat_0 number_eval replicate_eval)
qed

section \<open>Digit strings and the shape of toFixed\<close>

lemma isDigit_digitChar: "d < 10 \<Longrightarrow> isDigit (digitChar d)"
proof -
  assume "d < 10"
  then have "d \<in> {0, 1, 2, 3, 4, 5, 6, 7, 8, 9}" by auto
  then show ?thesis by (auto simp add: isDigit_def digitChar_def)
qed

lemma showNat_digits: "list_all isDigit (showNat n)"
proof (induction n rule: showNat.induct)
  case (1 n)
  show ?case
  proof (cases "n < 10")
    case True
    then show ?thesis by (simp add: showNat.simps [of n] isDigit_digitChar)
  next
    case False
    then show ?thesis using 1 by (simp add: showNat.simps [of n] isDigit_digitChar)
  qed
qed

lemma showNat_nonempty: "showNat n \<noteq> []"
  by (simp add: showNat.simps [of n])

lemma isDigit_zero: "isDigit CHR ''0''"
  by (simp add: isDigit_def)

lemma padStart_digits: "list_all isDigit ds \<Longrightarrow> list_all isDigit (padStart n ds)"
  by (auto simp add: padStart_def list_all_iff isDigit_zero)

lemma length_padStart: "n \<le> length (padStart n ds)"
  by (simp add: padStart_def)

lemma isDigit_not_minus: "isDigit c \<Longrightarrow> c \<noteq> CHR ''-''"
  by (auto simp add: isDigit_def)

lemma length_exponential: "3 \<le> length (exponential ds n)"
  by (simp add: exponential_def)

lemma length_toFixed2: "3 \<le> length (toFixed x 2)"
proof (cases x)
  case NaN
  then show ?thesis by (simp add: toFixed_def)
next
  case (Infinity neg)
  then show ?thesis by (simp add: toFixed_def)
next
  case (Finite neg m e)
  show ?thesis
  proof (cases "atLeast1e21 m e")
    case True
    have "3 \<le> length (bigToString m e)"
      by (simp add: bigToString_def Let_def length_exponential)
    then show ?thesis using Finite True by (simp add: toFixed_def Let_def)
  next
    case False
    have "3 \<le> length (padStart 3 (showNat (fixedDigits m e 2)))"
      by (rule length_padStart)
    then show ?thesis using Finite False by (simp add: toFixed_def Let_def)
  qed
qed

lemma toFixed2_not_sentinel: "toFixed x 2 @ '' EUR'' \<noteq> ''- EUR''"
proof
  assume "toFixed x 2 @ '' EUR'' = ''- EUR''"
  then have "length (toFixed x 2 @ '' EUR'') = length ''- EUR''" by simp
  then show False using length_toFixed2 [of x] by simp
qed

lemma twoDecimals_digits:
  assumes "sg = ''-'' \<or> sg = []" and "list_all isDigit z" and "3 \<le> length z"
  shows "twoDecimals (sg @ take (length z - 2) z @ ''.'' @ drop (length z - 2) z)"
proof -
  let ?body = "take (length z - 2) z @ ''.'' @ drop (length z - 2) z"
  have hd: "hd ?body \<noteq> CHR ''-''"
    using assms(2,3) by (cases z) (auto simp add: isDigit_not_minus take_Cons')
  have ne: "?body \<noteq> []" by simp
  have body: "unsigned (sg @ ?body) = ?body"
    using assms(1) hd ne by (auto simp add: unsigned_def)
  have len: "length ?body = length z + 1" using assms(3) by simp
  have a: "take (length ?body - 3) ?body = take (length z - 2) z"
    using assms(3) by (simp add: len)
  have b: "?body ! (length ?body - 3) = CHR ''.''"
    using assms(3) by (simp add: len nth_append)
  have c: "drop (length ?body - 2) ?body = drop (length z - 2) z"
    using assms(3) by (simp add: len)
  have d: "isDigits (take (length z - 2) z)" "isDigits (drop (length z - 2) z)"
    using assms(2,3) by (auto simp add: isDigits_def list_all_iff dest: in_set_takeD in_set_dropD)
  show ?thesis
    unfolding twoDecimals_def Let_def body a b c using d assms(3) by (simp add: len)
qed

lemma toFixed2_twoDecimals:
  assumes "\<not> atLeast1e21 m e"
  shows "twoDecimals (toFixed (Finite neg m e) 2)"
proof -
  let ?z = "padStart 3 (showNat (fixedDigits m e 2))"
  have z: "list_all isDigit ?z" "3 \<le> length ?z"
    by (simp_all add: padStart_digits showNat_digits length_padStart)
  have "toFixed (Finite neg m e) 2 =
      (if neg \<and> m \<noteq> 0 then ''-'' else []) @ take (length ?z - 2) ?z @ ''.'' @ drop (length ?z - 2) ?z"
    using assms by (simp add: toFixed_def Let_def)
  moreover have "twoDecimals ((if neg \<and> m \<noteq> 0 then ''-'' else []) @ take (length ?z - 2) ?z @ ''.''
      @ drop (length ?z - 2) ?z)"
    by (rule twoDecimals_digits [OF _ z]) simp
  ultimately show ?thesis by simp
qed

section \<open>The sentinel and the format of calculateNetEarningsPrevMonth\<close>

lemma truthy_iff: "truthy v \<longleftrightarrow> (\<exists>s. v = Val s \<and> s \<noteq> [])"
  by (cases v) (simp_all add: truthy_def)

text \<open>
  C6, for net earnings that are finite and below \<open>10^21\<close>.  The result is \<open>"- EUR"\<close>
  exactly when the selected series is empty or its last entry has no month (absent,
  \<open>null\<close> or empty).  In every other case it is toFixed(2) of the net earnings followed
  by \<open>" EUR"\<close>, which is a number with two decimal places when the net earnings are
  finite and below \<open>10^21\<close> in magnitude.
\<close>

theorem netEarnings_sentinel:
  "(calculateNetEarningsPrevMonth other p = ''- EUR'' \<longleftrightarrow>
      earningsData p = [] \<or> \<not> truthy (month (last (earningsData p))))
   \<and> (earningsData p \<noteq> [] \<and> month (last (earningsData p)) = Val s \<and> s \<noteq> [] \<longrightarrow>
        calculateNetEarningsPrevMonth other p = toFixed (netEarningsOf other p s) 2 @ '' EUR''
        \<and> (netEarningsOf other p s = Finite neg m e \<and> \<not> atLeast1e21 m e \<longrightarrow>
             twoDecimals (toFixed (netEarningsOf other p s) 2)))"
proof -
  have sentinel: "calculateNetEarningsPrevMonth other p = ''- EUR'' \<longleftrightarrow>
      earningsData p = [] \<or> \<not> truthy (month (last (earningsData p)))"
  proof (cases "earningsData p = []")
    case True
    then show ?thesis by (simp add: calculateNetEarningsPrevMonth_def Let_def)
  next
    case False
    show ?thesis
    proof (cases "truthy (month (last (earningsData p)))")
      case True
      then obtain t where t: "month (last (earningsData p)) = Val t" "t \<noteq> []"
        by (auto simp add: truthy_iff)
      show ?thesis
        using False True t
        by (simp add: calculateNetEarningsPrevMonth_present toFixed2_not_sentinel)
    next
      case False
      then show ?thesis
        by (cases "month (last (earningsData p))")
          (auto simp add: calculateNetEarningsPrevMonth_def Let_def truthy_def)
    qed
  qed
  have formatted: "earningsData p \<noteq> [] \<and> month (last (earningsData p)) = Val s \<and> s \<noteq> [] \<longrightarrow>
        calculateNetEarningsPrevMonth other p = toFixed (netEarningsOf other p s) 2 @ '' EUR''"
    by (simp add: calculateNetEarningsPrevMonth_present netEarningsOf_def)
  have shape: "netEarningsOf other p s = Finite neg m e \<and> \<not> atLeast1e21 m e \<longrightarrow>
      twoDecimals (toFixed (netEarningsOf other p s) 2)"
    by (simp add: toFixed2_twoDecimals)
  from sentinel formatted shape show ?thesis by blast
qed

theorem netEarnings_sentinel_witness:
  "calculateNetEarningsPrevMonth id (withSeries (Val ''800'') []) = ''- EUR''
   \<and> calculateNetEarningsPrevMonth id
        (withSeries (Val ''800'') [(''2024-05'', ''1000''), (''2024-06'', ''1200'')]) = ''200.00 EUR''
   \<and> twoDecimals ''200.00''"
proof -
  have salary: "parseSafeFloat (Val ''800'') = Finite False 25 5"
    by (simp add: parseSafeFloat_def parse_eval number_eval)
  have costs: "parseFloat ''1000'' = Finite False 125 3"
    by (simp add: parse_eval number_eval)
  have label: "dayjsPreviousMonth id ''2024-06'' = ''2024-05''"
    by (simp add: dayjs_eval parse_eval number_eval)
  have net: "roundScaled False 25 3 = Finite False 25 3"
    by (simp add: number_eval)
  have small: "\<not> atLeast1e21 25 3"
    by (simp add: atLeast1e21_def)
  have shown: "toFixed (Finite False 25 3) 2 = ''200.00''"
    by (simp add: number_eval replicate_eval)
  show ?thesis
    using netEarnings_sentinel [of id "withSeries (Val ''800'') []"]
      netEarnings_sentinel [of id
        "withSeries (Val ''800'') [(''2024-05'', ''1000''), (''2024-06'', ''1200'')]"
        "''2024-06''" False 25 3]
    by (simp add: netEarningsOf_def earningsData_def monthlySalaryOf_def earningsPrevMonthOf_def
        withSeries_def noPerson_def salary costs label net small shown)
qed

text \<open>
  C6 as stated fails: with the monthly salary \<open>"Infinity"\<close> the series is not empty, its
  last entry has a month, and the result is \<open>"-Infinity EUR"\<close>, which is no number with
  two decimal places.
\<close>

theorem netEarnings_sentinel_counterexample:
  "earningsData (withSeries (Val ''Infinity'') [(''2024-06'', ''1200'')]) \<noteq> []
   \<and> truthy (month (last (earningsData (withSeries (Val ''Infinity'') [(''2024-06'', ''1200'')]))))
   \<and> calculateNetEarningsPrevMonth id (withSeries (Val ''Infinity'') [(''2024-06'', ''1200'')])
       = ''-Infinity EUR''
   \<and> \<not> twoDecimals ''-Infinity''"
proof -
  have salary: "parseSafeFloat (Val ''Infinity'') = Infinity False"
    by (simp add: parseSafeFloat_def parse_eval number_eval)
  have label: "dayjsPreviousMonth id ''2024-06'' = ''2024-05''"
    by (simp add: dayjs_eval parse_eval number_eval)
  have shape: "\<not> twoDecimals ''-Infinity''"
    by (simp add: twoDecimals_def unsigned_def isDigits_def isDigit_def)
  show ?thesis
    by (simp add: calculateNetEarningsPrevMonth_def earningsData_def monthlySalaryOf_def
        earningsPrevMonthOf_def withSeries_def noPerson_def truthy_def salary label shape
        ofNat_0 toFixed_def)
qed

section \<open>formatPercentage on every input\<close>

lemma ofNat_100: "ofNat 100 = Finite False 25 2"
  by (simp add: number_eval)

lemma roundRatio_not_NaN: "roundRatio neg p q \<noteq> NaN"
  by (simp add: roundRatio_def Let_def split: prod.splits)

lemma roundScaled_not_NaN: "roundScaled neg m e \<noteq> NaN"
  by (simp add: roundScaled_def roundRatio_not_NaN)

lemma numMul_100_NaN: "numMul x (ofNat 100) = NaN \<longleftrightarrow> x = NaN"
  by (cases x) (simp_all add: ofNat_100 roundScaled_not_NaN)

lemma fixedDigits_floor: "int (fixedDigits m e f) = \<lfloor>magnitude m e * 10 ^ f + 1 / 2\<rfloor>"
proof (cases "0 \<le> e")
  case True
  have "magnitude m e * 10 ^ f + 1 / 2 = of_int (int (m * 2 ^ nat e * 10 ^ f)) + 1 / 2"
    using True by (simp add: magnitude_def)
  also have "\<lfloor>\<dots>\<rfloor> = int (m * 2 ^ nat e * 10 ^ f)"
    by (rule floor_unique) simp_all
  finally show ?thesis using True by (simp add: fixedDigits_def)
next
  case False
  let ?k = "nat (- e)"
  have "magnitude m e * 10 ^ f + 1 / 2 = of_nat m * 10 ^ f / 2 ^ ?k + 1 / 2"
    using False by (simp add: magnitude_def)
  also have "\<dots> = (of_nat (2 * m * 10 ^ f + 2 ^ ?k) :: rat) / of_nat (2 * 2 ^ ?k)"
    by (simp add: field_simps)
  finally have "\<lfloor>magnitude m e * 10 ^ f + 1 / 2\<rfloor> = int ((2 * m * 10 ^ f + 2 ^ ?k) div (2 * 2 ^ ?k))"
    by (simp only: floor_divide_of_nat_eq)
  then show ?thesis using False by (simp add: fixedDigits_def)
qed

lemma floor_half_nearest:
  fixes x :: rat
  shows "\<bar>x - of_int \<lfloor>x + 1 / 2\<rfloor>\<bar> \<le> \<bar>x - of_int k\<bar>"
proof -
  let ?n = "\<lfloor>x + 1 / 2\<rfloor>"
  have lo: "of_int ?n \<le> x + 1 / 2" by linarith
  have hi: "x + 1 / 2 < of_int ?n + 1" by linarith
  show ?thesis
  proof (cases "k = ?n")
    case True
    then show ?thesis by simp
  next
    case False
    then consider "k \<le> ?n - 1" | "?n + 1 \<le> k" by linarith
    then show ?thesis
    proof cases
      case 1
      then have "(of_int k :: rat) \<le> of_int ?n - 1"
        by (metis of_int_1 of_int_diff of_int_le_iff)
      then show ?thesis using lo hi by linarith
    next
      case 2
      then have "(of_int ?n :: rat) + 1 \<le> of_int k"
        by (metis of_int_1 of_int_add of_int_le_iff)
      then show ?thesis using lo hi by linarith
    qed
  qed
qed

lemma fixedDigits_nearest:
  "\<bar>magnitude m e * 10 ^ f - of_nat (fixedDigits m e f)\<bar> \<le> \<bar>magnitude m e * 10 ^ f - of_int k\<bar>"
proof -
  have "(of_nat (fixedDigits m e f) :: rat) = of_int \<lfloor>magnitude m e * 10 ^ f + 1 / 2\<rfloor>"
    by (simp only: fixedDigits_floor [symmetric])
  then show ?thesis by (simp only: floor_half_nearest)
qed


lemma wholePercent_digits:
  assumes "sg = ''-'' \<or> sg = []"
  shows "wholePercent (sg @ showNat n @ ''%'')"
proof -
  have hd: "hd (showNat n @ ''%'') \<noteq> CHR ''-''"
    using showNat_digits [of n] showNat_nonempty [of n]
    by (cases "showNat n") (auto simp add: isDigit_not_minus)
  have body: "unsigned (sg @ showNat n @ ''%'') = showNat n @ ''%''"
    using assms hd by (auto simp add: unsigned_def)
  show ?thesis
    unfolding wholePercent_def Let_def body
    by (simp add: isDigits_def showNat_digits showNat_nonempty butlast_append)
qed

text \<open>
  C8, for products that are finite and below \<open>10^21\<close>.  formatPercentage gives \<open>"N/A"\<close>
  for \<open>null\<close> and \<open>undefined\<close> and \<open>"-"\<close> for a string parseFloat cannot read.  When the
  product of the parsed Number and 100 is finite and below \<open>10^21\<close> in magnitude, the
  result is the sign, the digits of a whole number nearest to the product (no integer
  is nearer) and \<open>"%"\<close>.
\<close>

theorem formatPercentage_cases:
  "formatPercentage Null = ''N/A''
   \<and> formatPercentage Undefined = ''N/A''
   \<and> (parseFloat s = NaN \<longrightarrow> formatPercentage (Val s) = ''-'')
   \<and> (numMul (parseFloat s) (ofNat 100) = Finite neg m e \<and> \<not> atLeast1e21 m e \<longrightarrow>
        formatPercentage (Val s)
          = (if neg \<and> m \<noteq> 0 then ''-'' else []) @ showNat (fixedDigits m e 0) @ ''%''
        \<and> wholePercent (formatPercentage (Val s))
        \<and> (\<forall>k. \<bar>magnitude m e - of_nat (fixedDigits m e 0)\<bar> \<le> \<bar>magnitude m e - of_int k\<bar>))
   \<and> formatPercentage (Val ''0.8534'') = ''85%''"
proof -
  have missing: "formatPercentage Null = ''N/A''" "formatPercentage Undefined = ''N/A''"
    by (simp_all add: formatPercentage_def)
  have unparseable: "parseFloat s = NaN \<longrightarrow> formatPercentage (Val s) = ''-''"
    by (simp add: formatPercentage_def isNaN_def)
  have rounded: "formatPercentage (Val s)
          = (if neg \<and> m \<noteq> 0 then ''-'' else []) @ showNat (fixedDigits m e 0) @ ''%''
        \<and> wholePercent (formatPercentage (Val s))
        \<and> (\<forall>k. \<bar>magnitude m e - of_nat (fixedDigits m e 0)\<bar> \<le> \<bar>magnitude m e - of_int k\<bar>)"
    if product: "numMul (parseFloat s) (ofNat 100) = Finite neg m e" and small: "\<not> atLeast1e21 m e"
  proof -
    have "parseFloat s \<noteq> NaN"
      using product numMul_100_NaN [of "parseFloat s"] by auto
    then have shown: "formatPercentage (Val s)
          = (if neg \<and> m \<noteq> 0 then ''-'' else []) @ showNat (fixedDigits m e 0) @ ''%''"
      using product small by (simp add: formatPercentage_def isNaN_def toFixed_def Let_def)
    have whole: "wholePercent (formatPercentage (Val s))"
      unfolding shown by (rule wholePercent_digits) simp
    have nearest: "\<bar>magnitude m e - of_nat (fixedDigits m e 0)\<bar> \<le> \<bar>magnitude m e - of_int k\<bar>" for k
      using fixedDigits_nearest [of m e 0 k] by simp
    from shown whole nearest show ?thesis by blast
  qed
  have ex: "formatPercentage (Val ''0.8534'') = ''85%''"
    by (simp add: formatPercentage_def parse_eval number_eval)
  from missing unparseable rounded ex show ?thesis by blast
qed

theorem formatPercentage_cases_witness:
  "formatPercentage (Val ''abc'') = ''-''
   \<and> formatPercentage (Val ''0.8534'') = ''85%''
   \<and> wholePercent ''85%''"
proof -
  have product: "numMul (parseFloat ''0.8534'') (ofNat 100) = Finite False 3002634314060923 (- 45)"
    by (simp add: parse_eval number_eval)
  have small: "\<not> atLeast1e21 3002634314060923 (- 45)"
    by (simp add: atLeast1e21_def)
  show ?thesis
    using formatPercentage_cases [of "''abc''"]
      formatPercentage_cases [of "''0.8534''" False 3002634314060923 "- 45"]
    by (simp add: product small parse_eval number_eval wholePercent_def unsigned_def isDigits_def)
qed

text \<open>
  C8 as stated fails for the strings \<open>"Infinity"\<close> and \<open>"1e21"\<close>: parseFloat reads both,
  and the results \<open>"Infinity%"\<close> and \<open>"1e+23%"\<close> are no whole number followed by \<open>"%"\<close>.
\<close>

theorem formatPercentage_cases_counterexample:
  "parseFloat ''Infinity'' = Infinity False
   \<and> formatPercentage (Val ''Infinity'') = ''Infinity%''
   \<and> \<not> wholePercent ''Infinity%''
   \<and> parseFloat ''1e21'' = Finite False 476837158203125 21
   \<and> formatPercentage (Val ''1e21'') = ''1e+23%''
   \<and> \<not> wholePercent ''1e+23%''"
proof -
  have inf: "parseFloat ''Infinity'' = Infinity False"
    by (simp add: parse_eval)
  have big: "parseFloat ''1e21'' = Finite False 476837158203125 21"
    by (simp add: parse_eval number_eval)
  have product: "roundScaled False 11920928955078125 23 = Finite False 2980232238769531 25"
    by (simp add: number_eval)
  have digits: "length (showNat (2980232238769531 * 2 ^ nat 25)) = 23"
    by simp
  have power: "roundRatio False (10 ^ 23) 1 = Finite False 2980232238769531 25"
    by (simp add: number_eval)
  have shown: "bigToString 2980232238769531 25 = ''1e+23''"
    unfolding bigToString_def Let_def digits power by (simp add: exponential_def digitChar_def)
  have shape: "\<not> wholePercent ''Infinity%''" "\<not> wholePercent ''1e+23%''"
    by (simp_all add: wholePercent_def unsigned_def isDigits_def isDigit_def)
  show ?thesis
    by (simp add: formatPercentage_def isNaN_def inf big product shown shape ofNat_100
        toFixed_def atLeast1e21_def)
qed

end
